theory Spec2Isabelle
  imports Main
begin

section \<open>The MotherDuck/DuckDB tool server: data model\<close>

text \<open>
  The module under study (\<^verbatim>\<open>motherduck.ts\<close>) registers one handler for tool calls. The
  handler switches on the tool name and works on two module-level variables,
  \<^verbatim>\<open>instance\<close> and \<^verbatim>\<open>connection\<close>, both initially \<^verbatim>\<open>null\<close>. The database engine
  (\<^verbatim>\<open>@duckdb/node-api\<close>) and the validation library (\<^verbatim>\<open>zod\<close>) are libraries; the
  engine is a parameter of the model and every call to it is recorded in a trace.

  A handler is an \<^verbatim>\<open>async\<close> function: it runs up to its next \<^verbatim>\<open>await\<close>, and while it
  is suspended there the handlers of other requests can run. The handlers are modelled
  twice: as functions that run one call from its start to its response with nothing in
  between (\<open>call_tool\<close>), and as tasks that advance one step at a time, from one
  \<^verbatim>\<open>await\<close> to the next (\<open>step\<close>), which a schedule interleaves. A task that runs alone
  is the call (lemma \<open>finish_request\<close>).
\<close>

subsection \<open>Tool arguments\<close>

text \<open>
  \<^verbatim>\<open>request.params.arguments\<close> is a JSON object or \<^verbatim>\<open>undefined\<close>. An object is an
  association list; a property is looked up with \<^const>\<open>map_of\<close>. The payload of a
  number is never inspected by the code.
\<close>

datatype json =
    JNull
  | JBoolean bool
  | JNumber int
  | JString string
  | JArray "json list"
  | JObject "(string \<times> json) list"

type_synonym arguments = "(string \<times> json) list option"

subsection \<open>Errors\<close>

text \<open>
  The handler throws \<^verbatim>\<open>new Error(message)\<close>; a failed \<^verbatim>\<open>parse\<close> throws a
  \<^verbatim>\<open>ZodError\<close> carrying its issues.
\<close>

datatype ZodIssue = invalid_type (expected: string) (received: string) (path: "string list")

datatype error = ZodError "ZodIssue list" | Error string

text \<open>The failure kinds of the specification, as the messages the code throws.\<close>

definition UnsupportedKind :: error where
  \<open>UnsupportedKind = Error ''Only "DuckDB" or "MotherDuck" are supported''\<close>

definition MissingCredential :: error where
  \<open>MissingCredential = Error ''Please set the `motherduck_token` environment variable.''\<close>

definition NoActiveSession :: error where
  \<open>NoActiveSession = Error ''No active database connection. Please initialize one first.''\<close>

definition ConnectionFailed :: "string \<Rightarrow> error" where
  \<open>ConnectionFailed message = Error (''Failed to connect: '' @ message)\<close>

definition SchemaReadFailed :: "string \<Rightarrow> error" where
  \<open>SchemaReadFailed message = Error (''Failed to read schemas: '' @ message)\<close>

definition QueryFailed :: "string \<Rightarrow> error" where
  \<open>QueryFailed message = Error (''Error querying the database: '' @ message)\<close>

definition UnknownTool :: "string \<Rightarrow> error" where
  \<open>UnknownTool name = Error (''Unknown tool: '' @ name)\<close>

fun is_ValidationError :: "error \<Rightarrow> bool" where
  "is_ValidationError (ZodError _) = True"
| "is_ValidationError (Error _) = False"

subsection \<open>Input schemas\<close>

text \<open>
  Modelled from the spec: the schemas are built with the zod library, which is not part
  of the source. Section 4.1 of the specification gives the contract of validation: the
  declared field is required and must be a string, there is no coercion, and a violation
  is a validation error. \<open>getParsedType\<close> names the type of a value as a zod issue reports
  it, and \<open>z_string\<close> is \<^verbatim>\<open>z.string()\<close> applied to the property at path \<open>p\<close>
  (\<open>None\<close> is \<^verbatim>\<open>undefined\<close>).
\<close>

fun getParsedType :: "json option \<Rightarrow> string" where
  "getParsedType None = ''undefined''"
| "getParsedType (Some JNull) = ''null''"
| "getParsedType (Some (JBoolean _)) = ''boolean''"
| "getParsedType (Some (JNumber _)) = ''number''"
| "getParsedType (Some (JString _)) = ''string''"
| "getParsedType (Some (JArray _)) = ''array''"
| "getParsedType (Some (JObject _)) = ''object''"

definition z_string :: "string list \<Rightarrow> json option \<Rightarrow> ZodIssue list + string" where
  "z_string p v =
     (case v of
        Some (JString s) \<Rightarrow> Inr s
      | _ \<Rightarrow> Inl [invalid_type ''string'' (getParsedType v) p])"

text \<open>
  Modelled from the spec: \<^verbatim>\<open>z.object({key: z.string()}).parse(args)\<close>, followed by the
  destructuring of the one declared field. The payload must be an object that holds the
  field as a string. An object schema of zod strips the keys it does not declare, so
  nothing but the declared field reaches the handler.
\<close>

definition z_object :: "string \<Rightarrow> arguments \<Rightarrow> error + string" where
  "z_object key args =
     (case args of
        None \<Rightarrow> Inl (ZodError [invalid_type ''object'' ''undefined'' []])
      | Some fields \<Rightarrow>
          (case z_string [key] (map_of fields key) of
             Inl issues \<Rightarrow> Inl (ZodError issues)
           | Inr s \<Rightarrow> Inr s))"

record InitializeConnectionArgs =
  type :: string

record ReadSchemasArgs =
  database_name :: string

record ExecuteQueryArgs =
  query :: string

definition InitializeConnectionSchema_parse :: "arguments \<Rightarrow> error + InitializeConnectionArgs" where
  "InitializeConnectionSchema_parse args = map_sum id (\<lambda>s. \<lparr>type = s\<rparr>) (z_object ''type'' args)"

definition ReadSchemasSchema_parse :: "arguments \<Rightarrow> error + ReadSchemasArgs" where
  "ReadSchemasSchema_parse args =
     map_sum id (\<lambda>s. \<lparr>database_name = s\<rparr>) (z_object ''database_name'' args)"

definition ExecuteQuerySchema_parse :: "arguments \<Rightarrow> error + ExecuteQueryArgs" where
  "ExecuteQuerySchema_parse args = map_sum id (\<lambda>s. \<lparr>query = s\<rparr>) (z_object ''query'' args)"

subsection \<open>String operations\<close>

text \<open>
  A string is the list of the bytes of its UTF-8 encoding, so an ASCII character is one
  \<^typ>\<open>char\<close> and any other code point is two to four. Equality and concatenation of
  strings are equality and concatenation of their encodings. A byte list that is not
  UTF-8 stands for no JavaScript string.

  \<^verbatim>\<open>String.prototype.trim\<close> removes from both ends every code point that is white space
  or a line terminator: U+0009 to U+000D, U+0020, U+00A0, U+1680, U+2000 to U+200A,
  U+2028, U+2029, U+202F, U+205F, U+3000 and U+FEFF. \<open>WhiteSpace\<close> lists their
  encodings; the no-break space U+00A0, for one, is the two bytes C2 A0.
\<close>

definition WhiteSpace :: "string list" where
  "WhiteSpace =
     [[CHR 0x09], [CHR 0x0A], [CHR 0x0B], [CHR 0x0C], [CHR 0x0D], [CHR 0x20],
      [CHR 0xC2, CHR 0xA0],
      [CHR 0xE1, CHR 0x9A, CHR 0x80],
      [CHR 0xE2, CHR 0x80, CHR 0x80], [CHR 0xE2, CHR 0x80, CHR 0x81],
      [CHR 0xE2, CHR 0x80, CHR 0x82], [CHR 0xE2, CHR 0x80, CHR 0x83],
      [CHR 0xE2, CHR 0x80, CHR 0x84], [CHR 0xE2, CHR 0x80, CHR 0x85],
      [CHR 0xE2, CHR 0x80, CHR 0x86], [CHR 0xE2, CHR 0x80, CHR 0x87],
      [CHR 0xE2, CHR 0x80, CHR 0x88], [CHR 0xE2, CHR 0x80, CHR 0x89],
      [CHR 0xE2, CHR 0x80, CHR 0x8A],
      [CHR 0xE2, CHR 0x80, CHR 0xA8], [CHR 0xE2, CHR 0x80, CHR 0xA9],
      [CHR 0xE2, CHR 0x80, CHR 0xAF],
      [CHR 0xE2, CHR 0x81, CHR 0x9F],
      [CHR 0xE3, CHR 0x80, CHR 0x80],
      [CHR 0xEF, CHR 0xBB, CHR 0xBF]]"

text \<open>
  The length of the first of the sequences \<open>ws\<close> that the string starts with, or 0 when
  it starts with none.
\<close>

definition leading :: "string list \<Rightarrow> string \<Rightarrow> nat" where
  "leading ws s =
     (case filter (\<lambda>w. w \<noteq> [] \<and> take (length w) s = w) ws of
        [] \<Rightarrow> 0
      | w # _ \<Rightarrow> length w)"

fun strip :: "string list \<Rightarrow> string \<Rightarrow> string" where
  "strip ws [] = []"
| "strip ws (c # s) =
     (case leading ws (c # s) of
        0 \<Rightarrow> c # s
      | Suc n \<Rightarrow> strip ws (drop n s))"

definition trimStart :: "string \<Rightarrow> string" where
  "trimStart s = strip WhiteSpace s"

definition trimEnd :: "string \<Rightarrow> string" where
  "trimEnd s = rev (strip (map rev WhiteSpace) (rev s))"

definition trim :: "string \<Rightarrow> string" where
  "trim s = trimEnd (trimStart s)"

text \<open>
  \<^verbatim>\<open>String.prototype.toUpperCase\<close>. On a string of ASCII characters it maps the letters a
  to z to A to Z and leaves every other character as it is. On a string with other
  characters it follows the case tables of Unicode, which are the platform's and not
  part of the source: there the result is given by the parameter \<open>unicode\<close>.
\<close>

definition toUpperCase_char :: "char \<Rightarrow> char" where
  "toUpperCase_char c =
     (case map_of (zip ''abcdefghijklmnopqrstuvwxyz'' ''ABCDEFGHIJKLMNOPQRSTUVWXYZ'') c of
        Some u \<Rightarrow> u
      | None \<Rightarrow> c)"

definition is_ascii :: "string \<Rightarrow> bool" where
  "is_ascii s \<longleftrightarrow> list_all (\<lambda>c. (of_char c :: nat) < 128) s"

definition toUpperCase_with :: "(string \<Rightarrow> string) \<Rightarrow> string \<Rightarrow> string" where
  "toUpperCase_with unicode s = (if is_ascii s then map toUpperCase_char s else unicode s)"

text \<open>\<^verbatim>\<open>!process.env.motherduck_token\<close>: an unset variable and the empty string are falsy.\<close>

definition falsy :: "string option \<Rightarrow> bool" where
  "falsy v \<longleftrightarrow> (case v of None \<Rightarrow> True | Some s \<Rightarrow> s = [])"

subsection \<open>The engine and the module state\<close>

text \<open>
  The engine is an opaque service with three primitives. Each takes the engine's own
  state \<open>'w\<close> and returns either the message of the error it throws (\<open>Inl\<close>) or its
  value (\<open>Inr\<close>), with the engine's next state. Instances and connections are object
  identities. A result object of type \<open>'r\<close> is turned into text in two ways by the
  handlers: by a template literal (\<^verbatim>\<open>toString\<close>) and by \<^verbatim>\<open>JSON.stringify(r, null, 2)\<close>;
  both are the library's and are fields of the engine. The last field is the platform's
  uppercasing of a string that has characters outside ASCII.
\<close>

type_synonym DuckDBInstance = nat
type_synonym DuckDBConnection = nat

record ('w, 'r) engine =
  create :: "string \<Rightarrow> 'w \<Rightarrow> (string + DuckDBInstance) \<times> 'w"
  connect :: "DuckDBInstance \<Rightarrow> 'w \<Rightarrow> (string + DuckDBConnection) \<times> 'w"
  run :: "DuckDBConnection \<Rightarrow> string \<Rightarrow> 'w \<Rightarrow> (string + 'r) \<times> 'w"
  toString :: "'r \<Rightarrow> string"
  JSON_stringify :: "'r \<Rightarrow> string"
  unicode_toUpperCase :: "string \<Rightarrow> string"

definition toUpperCase :: "('w, 'r) engine \<Rightarrow> string \<Rightarrow> string" where
  "toUpperCase eng s = toUpperCase_with (unicode_toUpperCase eng) s"

datatype 'r engine_event =
    Create string "string + DuckDBInstance"
  | Connect DuckDBInstance "string + DuckDBConnection"
  | Run DuckDBConnection string "string + 'r"

text \<open>
  The two module variables, the engine's state, and the trace of every engine call made
  so far with its outcome.
\<close>

record ('w, 'r) state =
  "instance" :: "DuckDBInstance option"
  connection :: "DuckDBConnection option"
  world :: 'w
  trace :: "'r engine_event list"

definition initial_state :: "'w \<Rightarrow> ('w, 'r) state" where
  "initial_state w = \<lparr>instance = None, connection = None, world = w, trace = []\<rparr>"

definition DuckDBInstance_create ::
  "('w, 'r) engine \<Rightarrow> string \<Rightarrow> ('w, 'r) state \<Rightarrow> (string + DuckDBInstance) \<times> ('w, 'r) state" where
  "DuckDBInstance_create eng p s =
     (case create eng p (world s) of
        (r, w) \<Rightarrow> (r, s\<lparr>world := w, trace := trace s @ [Create p r]\<rparr>))"

definition instance_connect ::
  "('w, 'r) engine \<Rightarrow> DuckDBInstance \<Rightarrow> ('w, 'r) state \<Rightarrow> (string + DuckDBConnection) \<times> ('w, 'r) state" where
  "instance_connect eng i s =
     (case connect eng i (world s) of
        (r, w) \<Rightarrow> (r, s\<lparr>world := w, trace := trace s @ [Connect i r]\<rparr>))"

definition connection_run ::
  "('w, 'r) engine \<Rightarrow> DuckDBConnection \<Rightarrow> string \<Rightarrow> ('w, 'r) state \<Rightarrow> (string + 'r) \<times> ('w, 'r) state" where
  "connection_run eng c sql s =
     (case run eng c sql (world s) of
        (r, w) \<Rightarrow> (r, s\<lparr>world := w, trace := trace s @ [Run c sql r]\<rparr>))"

subsection \<open>Tool responses\<close>

record TextContent =
  type :: string
  "text" :: string

type_synonym response = "error + TextContent list"

section \<open>The tool handlers\<close>

subsection \<open>Query texts\<close>

definition list_databases_sql :: string where
  \<open>list_databases_sql =
     ''\<newline>'' @
     ''            SELECT string_agg(database_name, ',\<newline>')\<newline>'' @
     ''            FROM duckdb_databases() \<newline>'' @
     ''            WHERE database_name NOT IN ('system', 'temp')\<newline>'' @
     ''          ''\<close>

definition tables_sql :: "string \<Rightarrow> string" where
  \<open>tables_sql db =
     ''\<newline>'' @
     ''            SELECT string_agg(regexp_replace(sql, 'CREATE TABLE ', 'CREATE TABLE '||database_name||'.'), '\<newline>\<newline>') as sql \<newline>'' @
     ''            FROM duckdb_tables()\<newline>'' @
     ''            WHERE database_name = '' @ [CHR 0x27] @ db @ [CHR 0x27] @ ''\<newline>'' @
     ''          ''\<close>

definition views_sql :: "string \<Rightarrow> string" where
  \<open>views_sql db =
     ''\<newline>'' @
     ''            SELECT string_agg(regexp_replace(sql, 'CREATE TABLE ', 'CREATE TABLE '||database_name||'.'), '\<newline>\<newline>') as sql \<newline>'' @
     ''            FROM duckdb_views()\<newline>'' @
     ''            WHERE schema_name NOT IN ('information_schema', 'pg_catalog', 'localmemdb')\<newline>'' @
     ''            AND view_name NOT IN (\<newline>'' @
     ''              'duckdb_columns','duckdb_constraints','duckdb_databases','duckdb_indexes',\<newline>'' @
     ''              'duckdb_schemas','duckdb_tables','duckdb_types','duckdb_views','pragma_database_list',\<newline>'' @
     ''              'sqlite_master','sqlite_schema','sqlite_temp_master','sqlite_temp_schema'\<newline>'' @
     ''            )\<newline>'' @
     ''            AND database_name = '' @ [CHR 0x27] @ db @ [CHR 0x27] @ ''\<newline>'' @
     ''          ''\<close>

subsection \<open>initialize-connection\<close>

text \<open>
  The body of the \<^verbatim>\<open>try\<close> block. \<open>Inl message\<close> is an error thrown inside it, which
  the \<^verbatim>\<open>catch\<close> clause rethrows as \<^verbatim>\<open>Failed to connect: message\<close>. The assignments to
  \<^verbatim>\<open>instance\<close> and \<^verbatim>\<open>connection\<close> happen as soon as the engine call before them has
  returned.
\<close>

definition ensure_instance ::
  "('w, 'r) engine \<Rightarrow> ('w, 'r) state \<Rightarrow> (string + DuckDBInstance) \<times> ('w, 'r) state" where
  "ensure_instance eng s =
     (case instance s of
        Some i \<Rightarrow> (Inr i, s)
      | None \<Rightarrow>
          (case DuckDBInstance_create eng '':memory:'' s of
             (Inl message, s1) \<Rightarrow> (Inl message, s1)
           | (Inr i, s1) \<Rightarrow> (Inr i, s1\<lparr>instance := Some i\<rparr>)))"

definition success_text :: "string \<Rightarrow> string \<Rightarrow> string" where
  \<open>success_text dbType databases =
     ''Connection to '' @ dbType @
     '' successfully established. Here are the available databases: \<newline>'' @ databases\<close>

definition initialize_try ::
  "('w, 'r) engine \<Rightarrow> string \<Rightarrow> ('w, 'r) state \<Rightarrow> (string + TextContent list) \<times> ('w, 'r) state" where
  "initialize_try eng dbType s =
     (case ensure_instance eng s of
        (Inl message, s1) \<Rightarrow> (Inl message, s1)
      | (Inr i, s1) \<Rightarrow>
          (case instance_connect eng i s1 of
             (Inl message, s2) \<Rightarrow> (Inl message, s2)
           | (Inr c, s2) \<Rightarrow>
               (case connection_run eng c list_databases_sql (s2\<lparr>connection := Some c\<rparr>) of
                  (Inl message, s3) \<Rightarrow> (Inl message, s3)
                | (Inr databases, s3) \<Rightarrow>
                    (Inr [\<lparr>TextContent.type = ''text'',
                           text = success_text dbType (toString eng databases)\<rparr>], s3))))"

text \<open>The handler from the check of \<^verbatim>\<open>dbType\<close> on.\<close>

definition initialize_as ::
  "('w, 'r) engine \<Rightarrow> string option \<Rightarrow> string \<Rightarrow> ('w, 'r) state \<Rightarrow> response \<times> ('w, 'r) state" where
  "initialize_as eng motherduck_token dbType s =
     (if dbType \<notin> set [''DUCKDB'', ''MOTHERDUCK''] then (Inl UnsupportedKind, s)
      else if dbType = ''MOTHERDUCK'' \<and> falsy motherduck_token then (Inl MissingCredential, s)
      else
        (case initialize_try eng dbType s of
           (Inl message, s') \<Rightarrow> (Inl (ConnectionFailed message), s')
         | (Inr content, s') \<Rightarrow> (Inr content, s')))"

definition initialize_connection ::
  "('w, 'r) engine \<Rightarrow> string option \<Rightarrow> arguments \<Rightarrow> ('w, 'r) state \<Rightarrow> response \<times> ('w, 'r) state" where
  "initialize_connection eng motherduck_token args s =
     (case InitializeConnectionSchema_parse args of
        Inl e \<Rightarrow> (Inl e, s)
      | Inr a \<Rightarrow>
          (let dbType = toUpperCase eng (trim (InitializeConnectionArgs.type a))
           in initialize_as eng motherduck_token dbType s))"

subsection \<open>read-schemas\<close>

definition schemas_text :: "string \<Rightarrow> string \<Rightarrow> string" where
  \<open>schemas_text tables views =
     ''Here are all tables: \<newline>'' @ tables @ '' \<newline>\<newline> Here are all views: '' @ views\<close>

definition read_schemas ::
  "('w, 'r) engine \<Rightarrow> arguments \<Rightarrow> ('w, 'r) state \<Rightarrow> response \<times> ('w, 'r) state" where
  "read_schemas eng args s =
     (case connection s of
        None \<Rightarrow> (Inl NoActiveSession, s)
      | Some c \<Rightarrow>
          (case ReadSchemasSchema_parse args of
             Inl e \<Rightarrow> (Inl e, s)
           | Inr a \<Rightarrow>
               (case connection_run eng c (tables_sql (database_name a)) s of
                  (Inl message, s1) \<Rightarrow> (Inl (SchemaReadFailed message), s1)
                | (Inr tables, s1) \<Rightarrow>
                    (case connection_run eng c (views_sql (database_name a)) s1 of
                       (Inl message, s2) \<Rightarrow> (Inl (SchemaReadFailed message), s2)
                     | (Inr views, s2) \<Rightarrow>
                         (Inr [\<lparr>TextContent.type = ''text'',
                                text = schemas_text (toString eng tables) (toString eng views)\<rparr>],
                          s2)))))"

subsection \<open>execute-query\<close>

definition execute_query ::
  "('w, 'r) engine \<Rightarrow> arguments \<Rightarrow> ('w, 'r) state \<Rightarrow> response \<times> ('w, 'r) state" where
  "execute_query eng args s =
     (case connection s of
        None \<Rightarrow> (Inl NoActiveSession, s)
      | Some c \<Rightarrow>
          (case ExecuteQuerySchema_parse args of
             Inl e \<Rightarrow> (Inl e, s)
           | Inr a \<Rightarrow>
               (case connection_run eng c (query a) s of
                  (Inl message, s1) \<Rightarrow> (Inl (QueryFailed message), s1)
                | (Inr results, s1) \<Rightarrow>
                    (Inr [\<lparr>TextContent.type = ''text'', text = JSON_stringify eng results\<rparr>], s1))))"

subsection \<open>Dispatch\<close>

text \<open>The handler registered for \<^verbatim>\<open>CallToolRequestSchema\<close>: a switch on the tool name.\<close>

definition call_tool ::
  "('w, 'r) engine \<Rightarrow> string option \<Rightarrow> string \<Rightarrow> arguments \<Rightarrow> ('w, 'r) state
     \<Rightarrow> response \<times> ('w, 'r) state" where
  "call_tool eng motherduck_token name args s =
     (if name = ''initialize-connection'' then initialize_connection eng motherduck_token args s
      else if name = ''read-schemas'' then read_schemas eng args s
      else if name = ''execute-query'' then execute_query eng args s
      else (Inl (UnknownTool name), s))"

subsection \<open>Handlers as tasks\<close>

text \<open>
  A task is a handler invocation at one of its \<^verbatim>\<open>await\<close>s: a request whose handler has
  not started, a handler suspended on the promise of an engine primitive (with the
  local variables it needs afterwards and what the promise settles to), or a handler
  that has responded. An engine primitive takes effect when it is called.
\<close>

datatype 'r task =
    Request "string option" string arguments
  | Creating string "string + DuckDBInstance"
  | Connecting string "string + DuckDBConnection"
  | Listing string "string + 'r"
  | ReadingTables string "string + 'r"
  | ReadingViews 'r "string + 'r"
  | Querying "string + 'r"
  | Finished response

text \<open>
  initialize-connection up to its first \<^verbatim>\<open>await\<close>: the test of \<^verbatim>\<open>instance\<close> and the call
  of \<^verbatim>\<open>DuckDBInstance.create\<close> are on one side of it, the assignment to \<^verbatim>\<open>instance\<close> on
  the other.
\<close>

definition start_initialize ::
  "('w, 'r) engine \<Rightarrow> string option \<Rightarrow> arguments \<Rightarrow> ('w, 'r) state \<Rightarrow> 'r task \<times> ('w, 'r) state" where
  "start_initialize eng motherduck_token args s =
     (case InitializeConnectionSchema_parse args of
        Inl e \<Rightarrow> (Finished (Inl e), s)
      | Inr a \<Rightarrow>
          (let dbType = toUpperCase eng (trim (InitializeConnectionArgs.type a)) in
           if dbType \<notin> set [''DUCKDB'', ''MOTHERDUCK''] then (Finished (Inl UnsupportedKind), s)
           else if dbType = ''MOTHERDUCK'' \<and> falsy motherduck_token
             then (Finished (Inl MissingCredential), s)
           else
             (case instance s of
                None \<Rightarrow>
                  (case DuckDBInstance_create eng '':memory:'' s of
                     (r, s1) \<Rightarrow> (Creating dbType r, s1))
              | Some i \<Rightarrow>
                  (case instance_connect eng i s of
                     (r, s1) \<Rightarrow> (Connecting dbType r, s1)))))"

definition start_read_schemas ::
  "('w, 'r) engine \<Rightarrow> arguments \<Rightarrow> ('w, 'r) state \<Rightarrow> 'r task \<times> ('w, 'r) state" where
  "start_read_schemas eng args s =
     (case connection s of
        None \<Rightarrow> (Finished (Inl NoActiveSession), s)
      | Some c \<Rightarrow>
          (case ReadSchemasSchema_parse args of
             Inl e \<Rightarrow> (Finished (Inl e), s)
           | Inr a \<Rightarrow>
               (case connection_run eng c (tables_sql (database_name a)) s of
                  (r, s1) \<Rightarrow> (ReadingTables (database_name a) r, s1))))"

definition start_execute_query ::
  "('w, 'r) engine \<Rightarrow> arguments \<Rightarrow> ('w, 'r) state \<Rightarrow> 'r task \<times> ('w, 'r) state" where
  "start_execute_query eng args s =
     (case connection s of
        None \<Rightarrow> (Finished (Inl NoActiveSession), s)
      | Some c \<Rightarrow>
          (case ExecuteQuerySchema_parse args of
             Inl e \<Rightarrow> (Finished (Inl e), s)
           | Inr a \<Rightarrow>
               (case connection_run eng c (query a) s of
                  (r, s1) \<Rightarrow> (Querying r, s1))))"

text \<open>
  One step of a task: from where it is suspended to its next \<^verbatim>\<open>await\<close> or to its
  response. An assignment to a module variable happens in the step that resumes after
  the promise; the second query of read-schemas reads \<^verbatim>\<open>connection\<close> again (it cannot
  be \<^verbatim>\<open>null\<close> there, nothing resets it; if it were, the property access would throw).
\<close>

fun step :: "('w, 'r) engine \<Rightarrow> 'r task \<Rightarrow> ('w, 'r) state \<Rightarrow> 'r task \<times> ('w, 'r) state" where
  "step eng (Request motherduck_token name args) s =
     (if name = ''initialize-connection'' then start_initialize eng motherduck_token args s
      else if name = ''read-schemas'' then start_read_schemas eng args s
      else if name = ''execute-query'' then start_execute_query eng args s
      else (Finished (Inl (UnknownTool name)), s))"
| "step eng (Creating dbType (Inl message)) s = (Finished (Inl (ConnectionFailed message)), s)"
| "step eng (Creating dbType (Inr i)) s =
     (case instance_connect eng i (s\<lparr>instance := Some i\<rparr>) of
        (r, s1) \<Rightarrow> (Connecting dbType r, s1))"
| "step eng (Connecting dbType (Inl message)) s = (Finished (Inl (ConnectionFailed message)), s)"
| "step eng (Connecting dbType (Inr c)) s =
     (case connection_run eng c list_databases_sql (s\<lparr>connection := Some c\<rparr>) of
        (r, s1) \<Rightarrow> (Listing dbType r, s1))"
| "step eng (Listing dbType (Inl message)) s = (Finished (Inl (ConnectionFailed message)), s)"
| "step eng (Listing dbType (Inr databases)) s =
     (Finished (Inr [\<lparr>TextContent.type = ''text'',
                     text = success_text dbType (toString eng databases)\<rparr>]), s)"
| "step eng (ReadingTables db (Inl message)) s = (Finished (Inl (SchemaReadFailed message)), s)"
| "step eng (ReadingTables db (Inr tables)) s =
     (case connection s of
        None \<Rightarrow>
          (Finished (Inl (SchemaReadFailed ''Cannot read properties of null (reading 'run')'')), s)
      | Some c \<Rightarrow>
          (case connection_run eng c (views_sql db) s of
             (r, s1) \<Rightarrow> (ReadingViews tables r, s1)))"
| "step eng (ReadingViews tables (Inl message)) s = (Finished (Inl (SchemaReadFailed message)), s)"
| "step eng (ReadingViews tables (Inr views)) s =
     (Finished (Inr [\<lparr>TextContent.type = ''text'',
                     text = schemas_text (toString eng tables) (toString eng views)\<rparr>]), s)"
| "step eng (Querying (Inl message)) s = (Finished (Inl (QueryFailed message)), s)"
| "step eng (Querying (Inr results)) s =
     (Finished (Inr [\<lparr>TextContent.type = ''text'', text = JSON_stringify eng results\<rparr>]), s)"
| "step eng (Finished r) s = (Finished r, s)"


text \<open>
  A process holds the requests it has received as a list of tasks. A schedule is the
  order in which the tasks advance: each entry is the index of the task that takes the
  next step. Overlapping requests are schedules that alternate between tasks.
\<close>

fun schedule ::
  "('w, 'r) engine \<Rightarrow> nat list \<Rightarrow> 'r task list \<Rightarrow> ('w, 'r) state \<Rightarrow> 'r task list \<times> ('w, 'r) state" where
  "schedule eng [] ts s = (ts, s)"
| "schedule eng (k # ks) ts s =
     (if k < length ts then
        (case step eng (ts ! k) s of
           (t, s1) \<Rightarrow> schedule eng ks (ts[k := t]) s1)
      else schedule eng ks ts s)"

text \<open>
  A call is the value of the credential variable when the handler starts, the tool name
  and the arguments.
\<close>

type_synonym tool_call = "string option \<times> string \<times> arguments"

definition request :: "tool_call \<Rightarrow> 'r task" where
  "request c = (case c of (motherduck_token, name, args) \<Rightarrow> Request motherduck_token name args)"


text \<open>How many times the engine instance has been created, according to the trace.\<close>

fun is_created :: "'r engine_event \<Rightarrow> bool" where
  "is_created (Create _ (Inr _)) = True"
| "is_created _ = False"


section \<open>Notions used to state the properties\<close>

text \<open>The field a tool's schema declares.\<close>

definition required_field :: "string \<Rightarrow> string" where
  "required_field name =
     (if name = ''initialize-connection'' then ''type''
      else if name = ''read-schemas'' then ''database_name''
      else ''query'')"

text \<open>
  What the schema of a tool says about an arguments payload: the validation error, or
  \<open>None\<close> when the payload is accepted (and for a name that is not a tool).
\<close>

definition validate :: "string \<Rightarrow> arguments \<Rightarrow> error option" where
  "validate name args =
     (if name = ''initialize-connection'' then
        (case InitializeConnectionSchema_parse args of Inl e \<Rightarrow> Some e | Inr _ \<Rightarrow> None)
      else if name = ''read-schemas'' then
        (case ReadSchemasSchema_parse args of Inl e \<Rightarrow> Some e | Inr _ \<Rightarrow> None)
      else if name = ''execute-query'' then
        (case ExecuteQuerySchema_parse args of Inl e \<Rightarrow> Some e | Inr _ \<Rightarrow> None)
      else None)"

text \<open>The engine events a call has added to the trace.\<close>

definition new_events :: "('w, 'r) state \<Rightarrow> ('w, 'r) state \<Rightarrow> 'r engine_event list" where
  "new_events s s' = drop (length (trace s)) (trace s')"

text \<open>An event in which the creation of the instance or the connect primitive threw.\<close>

fun connect_threw :: "'r engine_event \<Rightarrow> bool" where
  "connect_threw (Create _ (Inl _)) = True"
| "connect_threw (Connect _ (Inl _)) = True"
| "connect_threw _ = False"

text \<open>
  The event that \<^const>\<open>ensure_instance\<close> adds when it returns instance \<open>i\<close>: the creation
  when there was no instance, nothing when there was one.
\<close>

definition created :: "('w, 'r) state \<Rightarrow> DuckDBInstance \<Rightarrow> 'r engine_event list" where
  "created s i = (case instance s of None \<Rightarrow> [Create '':memory:'' (Inr i)] | Some _ \<Rightarrow> [])"

text \<open>The last of the events is the listing query, and it threw.\<close>

definition listing_threw :: "'r engine_event list \<Rightarrow> bool" where
  "listing_threw evs \<longleftrightarrow>
     (case rev evs of
        Run c sql (Inl m) # _ \<Rightarrow> sql = list_databases_sql
      | _ \<Rightarrow> False)"

text \<open>
  A task that belongs to no initialize-connection call and is not suspended: a request
  for another tool that has not started, or a response.
\<close>

fun idle :: "'r task \<Rightarrow> bool" where
  "idle (Request _ name _) \<longleftrightarrow> name \<noteq> ''initialize-connection''"
| "idle (Finished _) \<longleftrightarrow> True"
| "idle _ \<longleftrightarrow> False"



section \<open>A scripted engine\<close>

text \<open>
  A small deterministic engine on which the theorems are instantiated. Handles are
  drawn from a counter and each primitive can be told to throw. A result object is
  represented by its content; every query answers with the single cell \<open>memory\<close>, and a
  result converts to a string as its content. The theorems are instantiated on ASCII
  kinds only, so the uppercasing of other strings is left as the identity.
\<close>

definition scripted_engine :: "bool \<Rightarrow> bool \<Rightarrow> bool \<Rightarrow> (nat, string) engine" where
  "scripted_engine create_throws connect_throws run_throws =
     \<lparr>create = (\<lambda>p w. (if create_throws then Inl ''create failed'' else Inr w, Suc w)),
      connect = (\<lambda>i w. (if connect_throws then Inl ''connect failed'' else Inr w, Suc w)),
      run = (\<lambda>c sql w. (if run_throws then Inl ''run failed'' else Inr ''memory'', Suc w)),
      toString = id,
      JSON_stringify = id,
      unicode_toUpperCase = id\<rparr>"

text \<open>
  The same engine with result objects that have no string conversion of their own: a
  template literal renders such an object as \<^verbatim>\<open>[object Object]\<close>, the default of
  \<^verbatim>\<open>Object.prototype.toString\<close>.
\<close>

definition plain_object_engine :: "(nat, string) engine" where
  "plain_object_engine = (scripted_engine False False False)\<lparr>toString := \<lambda>_. ''[object Object]''\<rparr>"

text \<open>
  The states the scripted engine goes through: after a first initialize-connection
  (\<open>session1\<close>), after a second one (\<open>session2\<close>), after a query on the second session
  (\<open>session3\<close>); after a first initialize-connection whose listing query threw
  (\<open>half_open\<close>); and after an initialize-connection on \<open>session1\<close> whose connect threw
  (\<open>refused\<close>).
\<close>

definition session1 :: "(nat, string) state" where
  "session1 = \<lparr>instance = Some 0, connection = Some 1, world = 3,
     trace = [Create '':memory:'' (Inr 0), Connect 0 (Inr 1),
              Run 1 list_databases_sql (Inr ''memory'')]\<rparr>"

definition session2 :: "(nat, string) state" where
  "session2 = \<lparr>instance = Some 0, connection = Some 3, world = 5,
     trace = [Create '':memory:'' (Inr 0), Connect 0 (Inr 1),
              Run 1 list_databases_sql (Inr ''memory''),
              Connect 0 (Inr 3), Run 3 list_databases_sql (Inr ''memory'')]\<rparr>"

definition session3 :: "(nat, string) state" where
  "session3 = \<lparr>instance = Some 0, connection = Some 3, world = 6,
     trace = [Create '':memory:'' (Inr 0), Connect 0 (Inr 1),
              Run 1 list_databases_sql (Inr ''memory''),
              Connect 0 (Inr 3), Run 3 list_databases_sql (Inr ''memory''),
              Run 3 ''SELECT 1'' (Inr ''memory'')]\<rparr>"

definition half_open :: "(nat, string) state" where
  "half_open = \<lparr>instance = Some 0, connection = Some 1, world = 3,
     trace = [Create '':memory:'' (Inr 0), Connect 0 (Inr 1),
              Run 1 list_databases_sql (Inl ''run failed'')]\<rparr>"

definition refused :: "(nat, string) state" where
  "refused = \<lparr>instance = Some 0, connection = Some 1, world = 4,
     trace = [Create '':memory:'' (Inr 0), Connect 0 (Inr 1),
              Run 1 list_databases_sql (Inr ''memory''),
              Connect 0 (Inl ''connect failed'')]\<rparr>"

text \<open>
  The kind \<^verbatim>\<open>duckdb\<close> with a no-break space (U+00A0) before it and a line separator
  (U+2028) after it.
\<close>

definition padded_duckdb :: string where
  "padded_duckdb = [CHR 0xC2, CHR 0xA0] @ ''duckdb'' @ [CHR 0xE2, CHR 0x80, CHR 0xA8]"


section \<open>Properties\<close>

subsection \<open>Validation\<close>

lemma z_object_field:
  "map_of obj key = Some (JString v) \<Longrightarrow> z_object key (Some obj) = Inr v"
  by (simp add: z_object_def z_string_def)

lemma z_object_Inr:
  "z_object key args = Inr v \<Longrightarrow> \<exists>obj. args = Some obj \<and> map_of obj key = Some (JString v)"
  by (auto simp: z_object_def z_string_def split: option.splits json.splits sum.splits)

lemma parse_type_field:
  "map_of obj ''type'' = Some (JString t)
     \<Longrightarrow> InitializeConnectionSchema_parse (Some obj) = Inr \<lparr>InitializeConnectionArgs.type = t\<rparr>"
  by (simp add: InitializeConnectionSchema_parse_def z_object_field)

lemma parse_database_name_field:
  "map_of obj ''database_name'' = Some (JString d)
     \<Longrightarrow> ReadSchemasSchema_parse (Some obj) = Inr \<lparr>database_name = d\<rparr>"
  by (simp add: ReadSchemasSchema_parse_def z_object_field)

lemma parse_query_field:
  "map_of obj ''query'' = Some (JString q)
     \<Longrightarrow> ExecuteQuerySchema_parse (Some obj) = Inr \<lparr>query = q\<rparr>"
  by (simp add: ExecuteQuerySchema_parse_def z_object_field)

lemma parse_type_Inr:
  assumes "InitializeConnectionSchema_parse args = Inr a"
  shows "\<exists>obj. args = Some obj \<and> map_of obj ''type'' = Some (JString (InitializeConnectionArgs.type a))"
proof -
  from assms obtain v where "z_object ''type'' args = Inr v" "a = \<lparr>InitializeConnectionArgs.type = v\<rparr>"
    by (cases "z_object ''type'' args") (auto simp: InitializeConnectionSchema_parse_def)
  then show ?thesis using z_object_Inr [of "''type''" args v] by simp
qed

subsection \<open>Engine calls and the trace\<close>

lemma new_events_append [simp]: "trace s' = trace s @ evs \<Longrightarrow> new_events s s' = evs"
  by (simp add: new_events_def)

lemma new_events_same [simp]: "new_events s s = []"
  by (simp add: new_events_def)

lemma connect_threw_created [simp]: "\<not> connect_threw ev" if "ev \<in> set (created s i)"
  using that by (auto simp: created_def split: option.splits)

lemma is_created_created [simp]:
  "length (filter is_created (created s i)) = (if instance s = None then 1 else 0)"
  by (simp add: created_def split: option.splits)

lemma listing_threw_simps [simp]:
  "listing_threw (evs @ [Run c list_databases_sql (Inl m)])"
  "\<not> listing_threw (evs @ [Run c sql (Inr databases)])"
  "\<not> listing_threw (evs @ [Connect i r])"
  "\<not> listing_threw (evs @ [Create p q])"
  "\<not> listing_threw []"
  by (simp_all add: listing_threw_def)

lemma instance_connect_effect:
  assumes "instance_connect eng i s = (r, s1)"
  shows "connection s1 = connection s \<and> instance s1 = instance s \<and>
         trace s1 = trace s @ [Connect i r]"
  using assms by (auto simp: instance_connect_def split: prod.splits)

lemma connection_run_effect:
  assumes "connection_run eng c sql s = (r, s1)"
  shows "connection s1 = connection s \<and> instance s1 = instance s \<and>
         trace s1 = trace s @ [Run c sql r]"
  using assms by (auto simp: connection_run_def split: prod.splits)

lemma ensure_instance_cases:
  assumes "ensure_instance eng s = (r, s1)"
  shows "connection s1 = connection s \<and>
         (case instance s of
            Some i \<Rightarrow> r = Inr i \<and> s1 = s
          | None \<Rightarrow>
              trace s1 = trace s @ [Create '':memory:'' r] \<and>
              instance s1 = (case r of Inl _ \<Rightarrow> None | Inr i \<Rightarrow> Some i))"
  using assms
  by (auto simp: ensure_instance_def DuckDBInstance_create_def
      split: option.splits prod.splits sum.splits)

lemma ensure_instance_Inl:
  assumes "ensure_instance eng s = (Inl m, s1)"
  shows "instance s = None \<and> instance s1 = None \<and> connection s1 = connection s \<and>
         trace s1 = trace s @ [Create '':memory:'' (Inl m)]"
  using ensure_instance_cases [OF assms] by (auto split: option.splits)

lemma ensure_instance_Inr:
  assumes "ensure_instance eng s = (Inr i, s1)"
  shows "instance s \<in> {None, Some i} \<and> instance s1 = Some i \<and> connection s1 = connection s \<and>
         trace s1 = trace s @ created s i"
  using ensure_instance_cases [OF assms] by (auto simp: created_def split: option.splits)

subsection \<open>The outcomes of initialize-connection\<close>

text \<open>The four ways through the \<^verbatim>\<open>try\<close> block.\<close>

lemma initialize_try_cases:
  assumes "initialize_try eng dbType s = (r, s')"
  obtains
    (create_threw) m s1 where "ensure_instance eng s = (Inl m, s1)" "r = Inl m" "s' = s1"
  | (connect_threw) i s1 m where "ensure_instance eng s = (Inr i, s1)"
      "instance_connect eng i s1 = (Inl m, s')" "r = Inl m"
  | (run_threw) i s1 c s2 m where "ensure_instance eng s = (Inr i, s1)"
      "instance_connect eng i s1 = (Inr c, s2)"
      "connection_run eng c list_databases_sql (s2\<lparr>connection := Some c\<rparr>) = (Inl m, s')"
      "r = Inl m"
  | (listed) i s1 c s2 databases where "ensure_instance eng s = (Inr i, s1)"
      "instance_connect eng i s1 = (Inr c, s2)"
      "connection_run eng c list_databases_sql (s2\<lparr>connection := Some c\<rparr>) = (Inr databases, s')"
      "r = Inr [\<lparr>TextContent.type = ''text'', text = success_text dbType (toString eng databases)\<rparr>]"
  using assms
  by (auto simp: initialize_try_def split: prod.splits sum.splits)

text \<open>The same four ways, each with its effect on the module variables and the trace.\<close>

lemma initialize_try_outcomes:
  assumes "initialize_try eng dbType s = (r, s')"
  obtains
    (create_threw) m where "r = Inl m" "instance s = None" "instance s' = None"
      "connection s' = connection s" "trace s' = trace s @ [Create '':memory:'' (Inl m)]"
  | (connect_threw) i m where "r = Inl m" "instance s \<in> {None, Some i}" "instance s' = Some i"
      "connection s' = connection s" "trace s' = trace s @ created s i @ [Connect i (Inl m)]"
  | (run_threw) i c m where "r = Inl m" "instance s \<in> {None, Some i}" "instance s' = Some i"
      "connection s' = Some c"
      "trace s' = trace s @ created s i @ [Connect i (Inr c), Run c list_databases_sql (Inl m)]"
  | (listed) i c databases where
      "r = Inr [\<lparr>TextContent.type = ''text'', text = success_text dbType (toString eng databases)\<rparr>]"
      "instance s \<in> {None, Some i}" "instance s' = Some i" "connection s' = Some c"
      "trace s' = trace s @ created s i @ [Connect i (Inr c), Run c list_databases_sql (Inr databases)]"
  using assms
proof (cases rule: initialize_try_cases)
  case (create_threw m s1)
  with ensure_instance_Inl [of eng s m s1] show ?thesis
    by (intro that(1) [of m]) simp_all
next
  case (connect_threw i s1 m)
  with ensure_instance_Inr [of eng s i s1] instance_connect_effect [of eng i s1 "Inl m" s']
  show ?thesis
    by (intro that(2) [of m i]) simp_all
next
  case (run_threw i s1 c s2 m)
  with ensure_instance_Inr [of eng s i s1] instance_connect_effect [of eng i s1 "Inr c" s2]
    connection_run_effect [of eng c list_databases_sql "s2\<lparr>connection := Some c\<rparr>" "Inl m" s']
  show ?thesis
    by (intro that(3) [of m i c]) simp_all
next
  case (listed i s1 c s2 databases)
  with ensure_instance_Inr [of eng s i s1] instance_connect_effect [of eng i s1 "Inr c" s2]
    connection_run_effect [of eng c list_databases_sql "s2\<lparr>connection := Some c\<rparr>"
      "Inr databases" s']
  show ?thesis
    by (intro that(4) [of databases i c]) simp_all
qed

text \<open>When the engine answers each primitive, the \<^verbatim>\<open>try\<close> block ends in the success text.\<close>

lemma initialize_try_answers:
  assumes "case instance s of
             None \<Rightarrow> create eng '':memory:'' (world s) = (Inr i, w0)
           | Some j \<Rightarrow> j = i \<and> w0 = world s"
    and "connect eng i w0 = (Inr c, w1)"
    and "run eng c list_databases_sql w1 = (Inr databases, w2)"
  shows "initialize_try eng dbType s =
           (Inr [\<lparr>TextContent.type = ''text'',
                  text = success_text dbType (toString eng databases)\<rparr>],
            s\<lparr>instance := Some i, connection := Some c, world := w2,
              trace := trace s @ created s i @
                [Connect i (Inr c), Run c list_databases_sql (Inr databases)]\<rparr>)"
  using assms
  by (cases "instance s")
    (simp_all add: initialize_try_def ensure_instance_def DuckDBInstance_create_def
      instance_connect_def connection_run_def created_def)

text \<open>When the listing query throws after connect has answered, the error leaves the block.\<close>

lemma initialize_try_listing_throws:
  assumes "case instance s of
             None \<Rightarrow> create eng '':memory:'' (world s) = (Inr i, w0)
           | Some j \<Rightarrow> j = i \<and> w0 = world s"
    and "connect eng i w0 = (Inr c, w1)"
    and "run eng c list_databases_sql w1 = (Inl m, w2)"
  shows "initialize_try eng dbType s =
           (Inl m,
            s\<lparr>instance := Some i, connection := Some c, world := w2,
              trace := trace s @ created s i @
                [Connect i (Inr c), Run c list_databases_sql (Inl m)]\<rparr>)"
  using assms
  by (cases "instance s")
    (simp_all add: initialize_try_def ensure_instance_def DuckDBInstance_create_def
      instance_connect_def connection_run_def created_def)

lemma initialize_connection_kind:
  "map_of obj ''type'' = Some (JString t)
     \<Longrightarrow> initialize_connection eng tok (Some obj) s = initialize_as eng tok (toUpperCase eng (trim t)) s"
  by (simp add: initialize_connection_def parse_type_field Let_def)

lemma initialize_as_not_unsupported:
  "dbType \<in> set [''DUCKDB'', ''MOTHERDUCK''] \<Longrightarrow> fst (initialize_as eng tok dbType s) \<noteq> Inl UnsupportedKind"
  by (auto simp: initialize_as_def UnsupportedKind_def MissingCredential_def ConnectionFailed_def
      split: prod.splits sum.splits)

lemma initialize_as_missing_credential:
  "falsy tok \<Longrightarrow> initialize_as eng tok ''MOTHERDUCK'' s = (Inl MissingCredential, s)"
  by (simp add: initialize_as_def)

text \<open>Every call of initialize-connection ends in one of four ways.\<close>

lemma initialize_outcomes:
  assumes "call_tool eng tok ''initialize-connection'' args s = (r, s')"
  obtains
    (invalid) e where "InitializeConnectionSchema_parse args = Inl e" "r = Inl e" "s' = s"
  | (unsupported) obj t where "args = Some obj" "map_of obj ''type'' = Some (JString t)"
      "toUpperCase eng (trim t) \<notin> {''DUCKDB'', ''MOTHERDUCK''}" "r = Inl UnsupportedKind" "s' = s"
  | (no_credential) obj t where "args = Some obj" "map_of obj ''type'' = Some (JString t)"
      "toUpperCase eng (trim t) = ''MOTHERDUCK''" "falsy tok" "r = Inl MissingCredential" "s' = s"
  | (tried) obj t r0 where "args = Some obj" "map_of obj ''type'' = Some (JString t)"
      "toUpperCase eng (trim t) \<in> {''DUCKDB'', ''MOTHERDUCK''}"
      "initialize_try eng (toUpperCase eng (trim t)) s = (r0, s')"
      "r = (case r0 of Inl m \<Rightarrow> Inl (ConnectionFailed m) | Inr content \<Rightarrow> Inr content)"
proof (cases "InitializeConnectionSchema_parse args")
  case (Inl e)
  with assms show ?thesis
    by (intro invalid [of e]) (auto simp: call_tool_def initialize_connection_def)
next
  case (Inr a)
  then obtain obj where obj: "args = Some obj"
    "map_of obj ''type'' = Some (JString (InitializeConnectionArgs.type a))"
    using parse_type_Inr by blast
  let ?k = "toUpperCase eng (trim (InitializeConnectionArgs.type a))"
  from assms obj have call: "initialize_as eng tok ?k s = (r, s')"
    by (simp add: call_tool_def initialize_connection_kind)
  show ?thesis
  proof (cases "?k \<in> {''DUCKDB'', ''MOTHERDUCK''}")
    case False
    with call obj show ?thesis
      by (intro unsupported [of obj "InitializeConnectionArgs.type a"])
        (auto simp: initialize_as_def)
  next
    case True
    show ?thesis
    proof (cases "?k = ''MOTHERDUCK'' \<and> falsy tok")
      case True
      with call obj show ?thesis
        by (intro no_credential [of obj "InitializeConnectionArgs.type a"])
          (auto simp: initialize_as_def)
    next
      case False
      obtain r0 s0 where attempt: "initialize_try eng ?k s = (r0, s0)"
        by (cases "initialize_try eng ?k s") auto
      with call True False obj show ?thesis
        by (intro tried [of obj "InitializeConnectionArgs.type a" r0])
          (auto simp: initialize_as_def split: sum.splits)
    qed
  qed
qed


subsection \<open>The other two tools\<close>

lemma read_schemas_no_session:
  "connection s = None \<Longrightarrow> read_schemas eng args s = (Inl NoActiveSession, s)"
  by (simp add: read_schemas_def)

lemma execute_query_no_session:
  "connection s = None \<Longrightarrow> execute_query eng args s = (Inl NoActiveSession, s)"
  by (simp add: execute_query_def)

lemma read_schemas_field:
  "map_of obj ''database_name'' = Some (JString d)
     \<Longrightarrow> read_schemas eng (Some obj) s = read_schemas eng (Some [(''database_name'', JString d)]) s"
  by (simp add: read_schemas_def parse_database_name_field split: option.splits)

lemma read_schemas_no_ZodError:
  "map_of obj ''database_name'' = Some (JString d)
     \<Longrightarrow> fst (read_schemas eng (Some obj) s) \<noteq> Inl (ZodError issues)"
  by (auto simp: read_schemas_def parse_database_name_field NoActiveSession_def
      SchemaReadFailed_def split: option.splits prod.splits sum.splits)

lemma execute_query_field:
  "map_of obj ''query'' = Some (JString q)
     \<Longrightarrow> execute_query eng (Some obj) s = execute_query eng (Some [(''query'', JString q)]) s"
  by (simp add: execute_query_def parse_query_field split: option.splits)

lemma execute_query_no_ZodError:
  "map_of obj ''query'' = Some (JString q)
     \<Longrightarrow> fst (execute_query eng (Some obj) s) \<noteq> Inl (ZodError issues)"
  by (auto simp: execute_query_def parse_query_field NoActiveSession_def
      QueryFailed_def split: option.splits prod.splits sum.splits)

lemma initialize_connection_no_ZodError:
  "map_of obj ''type'' = Some (JString t)
     \<Longrightarrow> fst (initialize_connection eng tok (Some obj) s) \<noteq> Inl (ZodError issues)"
  by (auto simp: initialize_connection_kind initialize_as_def UnsupportedKind_def
      MissingCredential_def ConnectionFailed_def split: prod.splits sum.splits)


lemma call_other_no_session:
  "connection s = None \<Longrightarrow> name \<noteq> ''initialize-connection''
     \<Longrightarrow> snd (call_tool eng tok name args s) = s"
  by (simp add: call_tool_def read_schemas_no_session execute_query_no_session)

subsection \<open>Tasks\<close>





text \<open>
  Without a session, tasks of the other tools respond at their first step and change
  nothing, in whatever order they are scheduled.
\<close>

lemma step_idle:
  assumes "connection s = None" and "idle t"
  shows "\<exists>t'. step eng t s = (t', s) \<and> idle t'"
  using assms
  by (cases t) (auto simp: start_read_schemas_def start_execute_query_def)

lemma schedule_idle:
  "connection s = None \<Longrightarrow> \<forall>t \<in> set ts. idle t \<Longrightarrow> snd (schedule eng ks ts s) = s"
proof (induction ks arbitrary: ts)
  case Nil
  then show ?case by simp
next
  case (Cons k ks)
  show ?case
  proof (cases "k < length ts")
    case False
    with Cons show ?thesis by simp
  next
    case True
    with Cons.prems have "idle (ts ! k)" by simp
    with Cons.prems(1) obtain t' where t': "step eng (ts ! k) s = (t', s)" "idle t'"
      using step_idle by blast
    have "\<forall>t \<in> set (ts[k := t']). idle t"
      using Cons.prems(2) t'(2) set_update_subset_insert [of ts k t'] by auto
    with Cons.IH [OF Cons.prems(1)] True t' show ?thesis by simp
  qed
qed

lemma idle_request: "fst (snd c) \<noteq> ''initialize-connection'' \<Longrightarrow> idle (request c)"
  by (cases c) (simp add: request_def)

subsection \<open>The invariant of the trace\<close>








subsection \<open>Runs of the scripted engine\<close>

lemmas handler_defs =
  call_tool_def initialize_connection_def InitializeConnectionSchema_parse_def
  ReadSchemasSchema_parse_def ExecuteQuerySchema_parse_def z_object_def z_string_def
  initialize_as_def initialize_try_def ensure_instance_def DuckDBInstance_create_def
  instance_connect_def connection_run_def read_schemas_def execute_query_def falsy_def

lemma normalize_examples:
  "toUpperCase eng (trim ''duckdb'') = ''DUCKDB''"
  "toUpperCase eng (trim '' DuckDB  '') = ''DUCKDB''"
  "toUpperCase eng (trim ''DUCKDB'') = ''DUCKDB''"
  "toUpperCase eng (trim ''MotherDuck'') = ''MOTHERDUCK''"
  "toUpperCase eng (trim ''sqlite'') = ''SQLITE''"
  "toUpperCase eng (trim ([CHR 0xC2, CHR 0xA0] @ ''duckdb'' @ [CHR 0xE2, CHR 0x80, CHR 0xA8])) = ''DUCKDB''"
  by (simp_all add: toUpperCase_def toUpperCase_with_def trim_def trimEnd_def trimStart_def
      leading_def WhiteSpace_def is_ascii_def toUpperCase_char_def)

lemma normalize_padded: "toUpperCase eng (trim padded_duckdb) = ''DUCKDB''"
  by (simp add: padded_duckdb_def toUpperCase_def toUpperCase_with_def trim_def trimEnd_def
      trimStart_def leading_def WhiteSpace_def is_ascii_def toUpperCase_char_def)

lemma scripted_engine_simps:
  "create (scripted_engine False b c) p w = (Inr w, Suc w)"
  "connect (scripted_engine a False c) i w = (Inr w, Suc w)"
  "run (scripted_engine a b False) k sql w = (Inr ''memory'', Suc w)"
  "toString (scripted_engine a b c) = id"
  by (simp_all add: scripted_engine_def)

lemma scripted_first_initialize:
  "call_tool (scripted_engine False False False) None ''initialize-connection''
       (Some [(''type'', JString ''duckdb'')]) (initial_state 0)
     = (Inr [\<lparr>TextContent.type = ''text'', text = success_text ''DUCKDB'' ''memory''\<rparr>], session1)"
  by (simp add: handler_defs normalize_examples scripted_engine_def initial_state_def
      session1_def Let_def)


lemma scripted_query:
  "call_tool (scripted_engine False False False) None ''execute-query''
       (Some [(''query'', JString ''SELECT 1''), (''limit'', JNumber 5)]) session2
     = (Inr [\<lparr>TextContent.type = ''text'', text = ''memory''\<rparr>], session3)"
  by (simp add: handler_defs scripted_engine_def session2_def session3_def)

lemma scripted_run_throws:
  "call_tool (scripted_engine False False True) None ''initialize-connection''
       (Some [(''type'', JString ''duckdb'')]) (initial_state 0)
     = (Inl (ConnectionFailed ''run failed''), half_open)"
  by (simp add: handler_defs normalize_examples scripted_engine_def initial_state_def Let_def
      half_open_def)

lemma scripted_connect_throws:
  "call_tool (scripted_engine False True False) None ''initialize-connection''
       (Some [(''type'', JString ''duckdb'')]) session1
     = (Inl (ConnectionFailed ''connect failed''), refused)"
  by (simp add: handler_defs normalize_examples scripted_engine_def session1_def refused_def
      Let_def)

section \<open>The claims\<close>

text \<open>
  Claim C1. While no session exists (\<^verbatim>\<open>connection\<close> is \<^verbatim>\<open>null\<close>), read-schemas and
  execute-query fail with NoActiveSession whatever their arguments, and leave the state
  as it was: no connection is opened, no instance is created, the engine is not called.
  In particular this is so in a process that has received any requests none of which is
  initialize-connection, in whatever order their tasks have been scheduled.
\<close>

theorem no_active_session:
  assumes "name = ''read-schemas'' \<or> name = ''execute-query''"
  shows "(connection s = None \<longrightarrow> call_tool eng tok name args s = (Inl NoActiveSession, s)) \<and>
         ((\<forall>c \<in> set calls. fst (snd c) \<noteq> ''initialize-connection'') \<longrightarrow>
            call_tool eng tok name args (snd (schedule eng ks (map request calls) (initial_state w)))
              = (Inl NoActiveSession, snd (schedule eng ks (map request calls) (initial_state w))))"
proof -
  have direct: "call_tool eng tok name args t = (Inl NoActiveSession, t)"
    if "connection t = None" for t :: "('a, 'b) state"
    using assms that
    by (auto simp: call_tool_def read_schemas_no_session execute_query_no_session)
  have none: "connection (initial_state w :: ('a, 'b) state) = None"
    by (simp add: initial_state_def)
  have "snd (schedule eng ks (map request calls) (initial_state w)) = initial_state w"
    if "\<forall>c \<in> set calls. fst (snd c) \<noteq> ''initialize-connection''"
    using that by (intro schedule_idle none) (auto intro: idle_request)
  then show ?thesis
    using direct none by simp
qed

theorem no_active_session_witness:
  "call_tool (scripted_engine False False False) None ''execute-query''
     (Some [(''query'', JString ''SELECT 1'')]) (initial_state 0)
   = (Inl NoActiveSession, initial_state 0) \<and>
   call_tool (scripted_engine False False False) None ''execute-query''
     (Some [(''query'', JString ''SELECT 1'')])
     (snd (schedule (scripted_engine False False False) [0, 1, 0]
        (map request
          [(None, ''read-schemas'', Some [(''database_name'', JString ''memory'')]),
           (None, ''execute-query'', Some [(''query'', JString ''SELECT 2'')])])
        (initial_state 0)))
   = (Inl NoActiveSession,
      snd (schedule (scripted_engine False False False) [0, 1, 0]
        (map request
          [(None, ''read-schemas'', Some [(''database_name'', JString ''memory'')]),
           (None, ''execute-query'', Some [(''query'', JString ''SELECT 2'')])])
        (initial_state 0)))"
  using no_active_session [of "''execute-query''" "initial_state 0"
      "scripted_engine False False False" None "Some [(''query'', JString ''SELECT 1'')]"
      "[(None, ''read-schemas'', Some [(''database_name'', JString ''memory'')]),
        (None, ''execute-query'', Some [(''query'', JString ''SELECT 2'')])]" "[0, 1, 0]" 0]
  by (simp add: initial_state_def)




text \<open>
  Claim C3. The handler depends on the \<^verbatim>\<open>type\<close> argument through its trimmed,
  uppercased form only. When that form is \<^verbatim>\<open>DUCKDB\<close> or \<^verbatim>\<open>MOTHERDUCK\<close> the kind is accepted:
  the call does not fail with UnsupportedKind, and when the credential is there for
  \<^verbatim>\<open>MOTHERDUCK\<close> and the engine answers the creation (if there is no instance yet), the
  connect and the listing query, the call succeeds, with the text that names the form
  and the new session installed. Two inputs with the same form give the same response
  and the same state. For every other string the call fails with UnsupportedKind and the
  state, engine trace included, is as before.
\<close>

theorem kind_normalization:
  assumes "map_of obj ''type'' = Some (JString t)"
    and "map_of obj' ''type'' = Some (JString t')"
  shows "(toUpperCase eng (trim t) \<in> {''DUCKDB'', ''MOTHERDUCK''} \<longrightarrow>
            fst (call_tool eng tok ''initialize-connection'' (Some obj) s) \<noteq> Inl UnsupportedKind) \<and>
         (toUpperCase eng (trim t) \<in> {''DUCKDB'', ''MOTHERDUCK''} \<and>
          \<not> (toUpperCase eng (trim t) = ''MOTHERDUCK'' \<and> falsy tok) \<and>
          (case instance s of
             None \<Rightarrow> create eng '':memory:'' (world s) = (Inr i, w0)
           | Some j \<Rightarrow> j = i \<and> w0 = world s) \<and>
          connect eng i w0 = (Inr c, w1) \<and>
          run eng c list_databases_sql w1 = (Inr databases, w2) \<longrightarrow>
            call_tool eng tok ''initialize-connection'' (Some obj) s =
              (Inr [\<lparr>TextContent.type = ''text'',
                     text = success_text (toUpperCase eng (trim t)) (toString eng databases)\<rparr>],
               s\<lparr>instance := Some i, connection := Some c, world := w2,
                 trace := trace s @ created s i @
                   [Connect i (Inr c), Run c list_databases_sql (Inr databases)]\<rparr>)) \<and>
         (toUpperCase eng (trim t) \<notin> {''DUCKDB'', ''MOTHERDUCK''} \<longrightarrow>
            call_tool eng tok ''initialize-connection'' (Some obj) s = (Inl UnsupportedKind, s)) \<and>
         (toUpperCase eng (trim t') = toUpperCase eng (trim t) \<longrightarrow>
            call_tool eng tok ''initialize-connection'' (Some obj') s
              = call_tool eng tok ''initialize-connection'' (Some obj) s)"
proof -
  let ?k = "toUpperCase eng (trim t)"
  have call: "call_tool eng tok ''initialize-connection'' (Some obj) s
      = initialize_as eng tok ?k s"
    using assms(1) by (simp add: call_tool_def initialize_connection_kind)
  have call': "call_tool eng tok ''initialize-connection'' (Some obj') s
      = initialize_as eng tok (toUpperCase eng (trim t')) s"
    using assms(2) by (simp add: call_tool_def initialize_connection_kind)
  have accepted: "fst (initialize_as eng tok ?k s) \<noteq> Inl UnsupportedKind"
    if "?k \<in> {''DUCKDB'', ''MOTHERDUCK''}"
    using that initialize_as_not_unsupported [of ?k eng tok s] by simp
  have succeeds: "initialize_as eng tok ?k s =
      (Inr [\<lparr>TextContent.type = ''text'', text = success_text ?k (toString eng databases)\<rparr>],
       s\<lparr>instance := Some i, connection := Some c, world := w2,
         trace := trace s @ created s i @
           [Connect i (Inr c), Run c list_databases_sql (Inr databases)]\<rparr>)"
    if "?k \<in> {''DUCKDB'', ''MOTHERDUCK''}" "\<not> (?k = ''MOTHERDUCK'' \<and> falsy tok)"
      "case instance s of
         None \<Rightarrow> create eng '':memory:'' (world s) = (Inr i, w0)
       | Some j \<Rightarrow> j = i \<and> w0 = world s"
      "connect eng i w0 = (Inr c, w1)"
      "run eng c list_databases_sql w1 = (Inr databases, w2)"
    using that(1,2) initialize_try_answers [OF that(3,4,5), of ?k]
    by (auto simp: initialize_as_def)
  have rejected: "initialize_as eng tok ?k s = (Inl UnsupportedKind, s)"
    if "?k \<notin> {''DUCKDB'', ''MOTHERDUCK''}"
    using that by (simp add: initialize_as_def)
  show ?thesis
    unfolding call call' using accepted succeeds rejected by metis
qed

theorem kind_normalization_witness:
  "call_tool (scripted_engine False False False) None ''initialize-connection''
       (Some [(''type'', JString ''duckdb'')]) (initial_state 0)
     = (Inr [\<lparr>TextContent.type = ''text'', text = success_text ''DUCKDB'' ''memory''\<rparr>], session1) \<and>
   call_tool (scripted_engine False False False) None ''initialize-connection''
       (Some [(''type'', JString padded_duckdb)]) (initial_state 0)
     = call_tool (scripted_engine False False False) None ''initialize-connection''
         (Some [(''type'', JString ''duckdb'')]) (initial_state 0) \<and>
   call_tool (scripted_engine False False False) None ''initialize-connection''
       (Some [(''type'', JString ''sqlite'')]) (initial_state 0)
     = (Inl UnsupportedKind, initial_state 0)"
  using kind_normalization [where obj = "[(''type'', JString ''duckdb'')]" and t = "''duckdb''"
      and obj' = "[(''type'', JString padded_duckdb)]" and t' = padded_duckdb
      and eng = "scripted_engine False False False" and tok = None and s = "initial_state 0"
      and i = 0 and ?w0.0 = 1 and c = 1 and ?w1.0 = 2 and databases = "''memory''" and ?w2.0 = 3]
    kind_normalization [where obj = "[(''type'', JString ''sqlite'')]" and t = "''sqlite''"
      and obj' = "[(''type'', JString ''sqlite'')]" and t' = "''sqlite''"
      and eng = "scripted_engine False False False" and tok = None and s = "initial_state 0"]
  by (simp add: normalize_examples normalize_padded scripted_engine_simps initial_state_def
      session1_def created_def)

text \<open>
  Claim C4. An initialize-connection call whose kind normalizes to \<^verbatim>\<open>MOTHERDUCK\<close>, made
  while the credential variable is unset, fails with MissingCredential and returns the
  state it was given: the instance, the session, the engine's state and the trace of
  engine calls are unchanged.
\<close>

theorem motherduck_without_credential:
  assumes "map_of obj ''type'' = Some (JString t)"
    and "toUpperCase eng (trim t) = ''MOTHERDUCK''"
  shows "call_tool eng None ''initialize-connection'' (Some obj) s = (Inl MissingCredential, s)"
  using assms
  by (simp add: call_tool_def initialize_connection_kind initialize_as_missing_credential falsy_def)

theorem motherduck_without_credential_witness:
  "call_tool (scripted_engine False False False) None ''initialize-connection''
       (Some [(''type'', JString ''MotherDuck'')]) session1
     = (Inl MissingCredential, session1)"
  using motherduck_without_credential [of "[(''type'', JString ''MotherDuck'')]" "''MotherDuck''"
      "scripted_engine False False False" session1]
  by (simp add: normalize_examples)

text \<open>
  Claim C5, as stated, fails: the handler assigns \<^verbatim>\<open>connection\<close> as soon as connect has
  returned, before the listing query. When that query throws, the call fails with
  ConnectionFailed and the new session is installed all the same. Here no session
  existed before the failing call and session 1 is current after it.
\<close>

theorem failed_initialize_counterexample:
  "call_tool (scripted_engine False False True) None ''initialize-connection''
       (Some [(''type'', JString ''duckdb'')]) (initial_state 0)
     = (Inl (ConnectionFailed ''run failed''), half_open) \<and>
   connection (initial_state 0 :: (nat, string) state) = None \<and>
   connection half_open = Some 1"
proof -
  have "connection (initial_state 0 :: (nat, string) state) = None"
    by (simp add: initial_state_def)
  moreover have "connection half_open = Some 1"
    by (simp add: half_open_def)
  ultimately show ?thesis
    using scripted_run_throws by simp
qed

text \<open>
  Claim C5, amended. A successful initialize-connection call installs the session its
  connect returned. A failing call leaves the session as it was, except when connect
  returned and the listing query then threw: that call fails with ConnectionFailed and
  the session connect returned is installed. The two cases are told apart by the events
  the call added to the trace, and the second is also stated on the engine: when
  connect answers and the listing query throws, the response and the whole state are
  given. A response is either an error or a content list (a value of a sum type), never
  both.
\<close>

theorem session_replacement:
  assumes "call_tool eng tok ''initialize-connection'' args s = (r, s')"
  shows "(\<forall>content. r = Inr content \<longrightarrow>
            (\<exists>i c databases. connection s' = Some c \<and>
               new_events s s' = created s i @
                 [Connect i (Inr c), Run c list_databases_sql (Inr databases)])) \<and>
         (\<forall>e. r = Inl e \<longrightarrow>
            (if listing_threw (new_events s s')
             then \<exists>i c m. e = ConnectionFailed m \<and> connection s' = Some c \<and>
                    new_events s s' = created s i @
                      [Connect i (Inr c), Run c list_databases_sql (Inl m)]
             else connection s' = connection s)) \<and>
         (args = Some obj \<and> map_of obj ''type'' = Some (JString t) \<and>
          toUpperCase eng (trim t) \<in> {''DUCKDB'', ''MOTHERDUCK''} \<and>
          \<not> (toUpperCase eng (trim t) = ''MOTHERDUCK'' \<and> falsy tok) \<and>
          (case instance s of
             None \<Rightarrow> create eng '':memory:'' (world s) = (Inr i, w0)
           | Some j \<Rightarrow> j = i \<and> w0 = world s) \<and>
          connect eng i w0 = (Inr c, w1) \<and>
          run eng c list_databases_sql w1 = (Inl m, w2) \<longrightarrow>
            r = Inl (ConnectionFailed m) \<and>
            s' = s\<lparr>instance := Some i, connection := Some c, world := w2,
                   trace := trace s @ created s i @
                     [Connect i (Inr c), Run c list_databases_sql (Inl m)]\<rparr>)"
proof -
  have general: "(\<forall>content. r = Inr content \<longrightarrow>
            (\<exists>i c databases. connection s' = Some c \<and>
               new_events s s' = created s i @
                 [Connect i (Inr c), Run c list_databases_sql (Inr databases)])) \<and>
         (\<forall>e. r = Inl e \<longrightarrow>
            (if listing_threw (new_events s s')
             then \<exists>i c m. e = ConnectionFailed m \<and> connection s' = Some c \<and>
                    new_events s s' = created s i @
                      [Connect i (Inr c), Run c list_databases_sql (Inl m)]
             else connection s' = connection s))"
    using assms
  proof (cases rule: initialize_outcomes)
    case (tried obj t r0)
    from tried(4) show ?thesis
    proof (cases rule: initialize_try_outcomes)
      case (create_threw m)
      with tried(5) show ?thesis using listing_threw_simps(4) [of "[]"] by simp
    next
      case (connect_threw i m)
      with tried(5) show ?thesis using listing_threw_simps(3) [of "created s i"] by simp
    next
      case (run_threw i c m)
      with tried(5) show ?thesis
        using listing_threw_simps(1) [of "created s i @ [Connect i (Inr c)]"] by auto
    next
      case (listed i c databases)
      with tried(5) show ?thesis by auto
    qed
  qed simp_all
  have engine: "r = Inl (ConnectionFailed m) \<and>
      s' = s\<lparr>instance := Some i, connection := Some c, world := w2,
             trace := trace s @ created s i @
               [Connect i (Inr c), Run c list_databases_sql (Inl m)]\<rparr>"
    if "args = Some obj" "map_of obj ''type'' = Some (JString t)"
      "toUpperCase eng (trim t) \<in> {''DUCKDB'', ''MOTHERDUCK''}"
      "\<not> (toUpperCase eng (trim t) = ''MOTHERDUCK'' \<and> falsy tok)"
      "case instance s of
         None \<Rightarrow> create eng '':memory:'' (world s) = (Inr i, w0)
       | Some j \<Rightarrow> j = i \<and> w0 = world s"
      "connect eng i w0 = (Inr c, w1)"
      "run eng c list_databases_sql w1 = (Inl m, w2)"
  proof -
    have "call_tool eng tok ''initialize-connection'' args s
        = initialize_as eng tok (toUpperCase eng (trim t)) s"
      using that(1,2) by (simp add: call_tool_def initialize_connection_kind)
    with assms that(3,4) initialize_try_listing_throws [OF that(5,6,7), of "toUpperCase eng (trim t)"]
    show ?thesis by (auto simp: initialize_as_def)
  qed
  from general engine show ?thesis by blast
qed

theorem session_replacement_witness:
  "listing_threw (new_events (initial_state 0) half_open) \<and>
   connection half_open = Some 1 \<and>
   new_events (initial_state 0) half_open
     = [Create '':memory:'' (Inr 0), Connect 0 (Inr 1),
        Run 1 list_databases_sql (Inl ''run failed'')] \<and>
   \<not> listing_threw (new_events session1 refused) \<and>
   connection refused = connection session1 \<and>
   connection session1 = Some 1 \<and>
   new_events (initial_state 0) session1
     = [Create '':memory:'' (Inr 0), Connect 0 (Inr 1),
        Run 1 list_databases_sql (Inr ''memory'')] \<and>
   run (scripted_engine False False True) 1 list_databases_sql 2 = (Inl ''run failed'', 3) \<and>
   half_open = (initial_state 0)\<lparr>instance := Some 0, connection := Some 1, world := 3,
       trace := [Create '':memory:'' (Inr 0), Connect 0 (Inr 1),
                 Run 1 list_databases_sql (Inl ''run failed'')]\<rparr>"
  using session_replacement [OF scripted_run_throws,
      where obj = "[(''type'', JString ''duckdb'')]" and t = "''duckdb''"
      and i = 0 and ?w0.0 = 1 and c = 1 and ?w1.0 = 2 and m = "''run failed''" and ?w2.0 = 3]
    session_replacement [OF scripted_connect_throws] session_replacement [OF scripted_first_initialize]
  by (simp add: half_open_def session1_def refused_def initial_state_def new_events_def
      listing_threw_def scripted_engine_def)

text \<open>
  What every successful initialize-connection call returns, for any engine: one text
  item, whose text is the sentence naming the normalized kind followed by the string
  conversion of the result object that the listing query returned on the new session.
\<close>

lemma initialize_success_text:
  assumes "call_tool eng tok ''initialize-connection'' args s = (Inr content, s')"
  shows "\<exists>obj t c databases.
           args = Some obj \<and> map_of obj ''type'' = Some (JString t) \<and>
           toUpperCase eng (trim t) \<in> {''DUCKDB'', ''MOTHERDUCK''} \<and>
           content = [\<lparr>TextContent.type = ''text'',
                       text = ''Connection to '' @ toUpperCase eng (trim t) @
                         '' successfully established. Here are the available databases: \<newline>'' @
                         toString eng databases\<rparr>] \<and>
           connection s' = Some c \<and>
           last (trace s') = Run c list_databases_sql (Inr databases)"
  using assms
proof (cases rule: initialize_outcomes)
  case (tried obj t r0)
  from tried(4) show ?thesis
  proof (cases rule: initialize_try_outcomes)
    case (listed i c databases)
    with tried show ?thesis by (auto simp: success_text_def)
  qed (use tried(5) in simp_all)
qed simp_all

text \<open>
  Claim C6. The success envelope is a single text item and its text names the
  normalized kind, but the list of databases is not what follows: the handler puts the
  result object itself into the template literal, not the cell the listing query
  aggregated. With result objects that convert to a string as JavaScript objects do by
  default, the engine answers the listing query with \<open>memory\<close> and the text ends in
  \<^verbatim>\<open>[object Object]\<close>.
\<close>

theorem listing_rendered_as_object:
  "call_tool plain_object_engine None ''initialize-connection''
       (Some [(''type'', JString ''duckdb'')]) (initial_state 0)
     = (Inr [\<lparr>TextContent.type = ''text'',
              text = ''Connection to DUCKDB successfully established. Here are the available databases: \<newline>[object Object]''\<rparr>],
        session1) \<and>
   last (trace session1) = Run 1 list_databases_sql (Inr ''memory'')"
  by (simp add: handler_defs normalize_examples plain_object_engine_def scripted_engine_def
      initial_state_def session1_def success_text_def Let_def)

text \<open>
  Claim C7, as stated, fails: read-schemas and execute-query test \<^verbatim>\<open>connection\<close> before
  they parse their arguments. Here the arguments of read-schemas lack the required
  field, and the call fails with NoActiveSession, not with the validation error.
\<close>

theorem validation_first_counterexample:
  "validate ''read-schemas'' (Some []) =
      Some (ZodError [invalid_type ''string'' ''undefined'' [''database_name'']]) \<and>
   call_tool (scripted_engine False False False) None ''read-schemas'' (Some []) (initial_state 0)
     = (Inl NoActiveSession, initial_state 0) \<and>
   NoActiveSession \<noteq> ZodError [invalid_type ''string'' ''undefined'' [''database_name'']]"
  by (simp add: validate_def ReadSchemasSchema_parse_def z_object_def z_string_def call_tool_def
      read_schemas_def initial_state_def NoActiveSession_def)

text \<open>
  Claim C7, amended. No engine call and no change of state happens on arguments that
  the tool's schema rejects, for all three tools. initialize-connection validates first
  and fails with the validation error. read-schemas and execute-query test for a session
  first: without one they fail with NoActiveSession, with one they fail with the
  validation error.
\<close>

theorem validation_before_engine:
  assumes "validate name args = Some e"
  shows "call_tool eng tok name args s =
           (Inl (if name \<noteq> ''initialize-connection'' \<and> connection s = None
                 then NoActiveSession else e), s)"
  using assms
  by (auto simp: validate_def call_tool_def initialize_connection_def read_schemas_def
      execute_query_def split: if_splits sum.splits option.splits)

theorem validation_before_engine_witness:
  "call_tool (scripted_engine False False False) None ''execute-query''
       (Some [(''query'', JNumber 1)]) session1
     = (Inl (ZodError [invalid_type ''string'' ''number'' [''query'']]), session1)"
  using validation_before_engine [of "''execute-query''" "Some [(''query'', JNumber 1)]"
      "ZodError [invalid_type ''string'' ''number'' [''query'']]"
      "scripted_engine False False False" None session1]
  by (simp add: validate_def ExecuteQuerySchema_parse_def z_object_def z_string_def session1_def)

text \<open>
  Claim C8. With the credential variable set to the empty string, an
  initialize-connection call whose kind normalizes to \<^verbatim>\<open>MOTHERDUCK\<close> fails with
  MissingCredential and leaves the state unchanged, exactly as with the variable unset.
\<close>

theorem empty_credential_is_missing:
  assumes "map_of obj ''type'' = Some (JString t)"
    and "toUpperCase eng (trim t) = ''MOTHERDUCK''"
  shows "call_tool eng (Some '''') ''initialize-connection'' (Some obj) s = (Inl MissingCredential, s) \<and>
         call_tool eng (Some '''') ''initialize-connection'' (Some obj) s
           = call_tool eng None ''initialize-connection'' (Some obj) s"
  using assms
  by (simp add: call_tool_def initialize_connection_kind initialize_as_missing_credential falsy_def)

theorem empty_credential_is_missing_witness:
  "call_tool (scripted_engine False False False) (Some '''') ''initialize-connection''
       (Some [(''type'', JString ''MotherDuck'')]) (initial_state 0)
     = (Inl MissingCredential, initial_state 0)"
  using empty_credential_is_missing [of "[(''type'', JString ''MotherDuck'')]" "''MotherDuck''"
      "scripted_engine False False False" "initial_state 0"]
  by (simp add: normalize_examples)

text \<open>
  Claim C9. For each of the three tools, arguments that hold the required field as a
  string pass validation whatever other fields they hold, the call never fails with a
  validation error, and it does exactly what it does on the required field alone.
\<close>

theorem unknown_fields_are_stripped:
  assumes "name \<in> {''initialize-connection'', ''read-schemas'', ''execute-query''}"
    and "map_of obj (required_field name) = Some (JString v)"
  shows "validate name (Some obj) = None \<and>
         call_tool eng tok name (Some obj) s
           = call_tool eng tok name (Some [(required_field name, JString v)]) s \<and>
         (\<forall>issues. fst (call_tool eng tok name (Some obj) s) \<noteq> Inl (ZodError issues))"
proof -
  consider (init) "name = ''initialize-connection''" | (read) "name = ''read-schemas''"
    | (exec) "name = ''execute-query''"
    using assms(1) by auto
  then show ?thesis
  proof cases
    case init
    with assms(2) have f: "map_of obj ''type'' = Some (JString v)"
      by (simp add: required_field_def)
    have "initialize_connection eng tok (Some obj) s
        = initialize_connection eng tok (Some [(''type'', JString v)]) s"
      using f by (simp add: initialize_connection_kind)
    with init f show ?thesis
      by (simp add: call_tool_def required_field_def validate_def parse_type_field
          initialize_connection_no_ZodError)
  next
    case read
    with assms(2) have f: "map_of obj ''database_name'' = Some (JString v)"
      by (simp add: required_field_def)
    with read show ?thesis
      using read_schemas_field [OF f, of eng s]
      by (simp add: call_tool_def required_field_def validate_def parse_database_name_field
          read_schemas_no_ZodError)
  next
    case exec
    with assms(2) have f: "map_of obj ''query'' = Some (JString v)"
      by (simp add: required_field_def)
    with exec show ?thesis
      using execute_query_field [OF f, of eng s]
      by (simp add: call_tool_def required_field_def validate_def parse_query_field
          execute_query_no_ZodError)
  qed
qed

theorem unknown_fields_are_stripped_witness:
  "call_tool (scripted_engine False False False) None ''execute-query''
       (Some [(''query'', JString ''SELECT 1'')]) session2
     = (Inr [\<lparr>TextContent.type = ''text'', text = ''memory''\<rparr>], session3)"
  using unknown_fields_are_stripped [of "''execute-query''"
      "[(''query'', JString ''SELECT 1''), (''limit'', JNumber 5)]" "''SELECT 1''"
      "scripted_engine False False False" None session2]
  by (simp add: required_field_def scripted_query)

text \<open>
  Claim C10. When, in an initialize-connection call, the creation of the engine instance
  or the connect primitive throws, the session is the one that was current before the
  call (or still none).
\<close>

theorem failed_connect_keeps_session:
  assumes "call_tool eng tok ''initialize-connection'' args s = (r, s')"
    and "\<exists>ev \<in> set (new_events s s'). connect_threw ev"
  shows "connection s' = connection s"
  using assms(1)
proof (cases rule: initialize_outcomes)
  case (tried obj t r0)
  from tried(4) show ?thesis
  proof (cases rule: initialize_try_outcomes)
    case (run_threw i c m)
    with assms(2) show ?thesis by auto
  next
    case (listed i c databases)
    with assms(2) show ?thesis by auto
  qed simp_all
qed (use assms(2) in simp_all)

theorem failed_connect_keeps_session_witness:
  "new_events session1 refused = [Connect 0 (Inl ''connect failed'')] \<and>
   connect_threw (Connect 0 (Inl ''connect failed'') :: string engine_event) \<and>
   connection refused = connection session1"
  using failed_connect_keeps_session [OF scripted_connect_throws]
  by (simp add: session1_def refused_def new_events_def)

end
